theory Spec2Isabelle
  imports Complex_Main "HOL-Library.Sublist"
begin

section \<open>The data model of \<open>scripts/data_processor.py\<close>\<close>

text \<open>
  \<open>HRDataProcessor\<close> keeps a pandas \<open>DataFrame\<close> in \<open>self.df\<close> and a list of strings in
  \<open>self.processing_log\<close>; every stage mutates both and returns \<open>self\<close>.

  A cell of the frame is a number, a string or the missing marker (pandas' \<open>NaN\<close>).
  Numbers are exact rationals here: the medians and the quartiles the code computes are
  the exact ones, without the rounding of \<open>float64\<close> and without the wrap-around of
  \<open>int64\<close>. The code and the definitions agree where every intermediate value is
  representable, as it is for the whole-number ages and incomes of a few digits that
  the frames evaluated below hold; on values near \<open>2^53\<close> the code rounds and can differ.
\<close>

datatype cell = Num rat | Str string | NaN

type_synonym row = "cell list"

text \<open>
  The frame: the column labels in order, and the records in order, each record holding
  one cell per column. \<open>pd.read_csv\<close> builds frames in which every record has exactly one
  cell per column (\<open>wf_dataframe\<close>).
\<close>

record dataframe =
  columns :: "string list"
  rows :: "row list"

definition wf_dataframe :: "dataframe \<Rightarrow> bool" where
  "wf_dataframe d = list_all (\<lambda>r. length r = length (columns d)) (rows d)"

text \<open>The exceptions the stages can raise.\<close>

datatype py_error = KeyError | TypeError | ValueError

text \<open>
  An entry of \<open>processing_log\<close>. The code appends f-strings; an entry here is the
  template of the f-string with the values it interpolates.
\<close>

datatype log_entry =
    FoundDuplicates nat              \<comment> \<open>\<open>Found {duplicates} duplicate rows\<close>\<close>
  | MissingValuesFound               \<comment> \<open>\<open>Missing values found:\<close>\<close>
  | MissingInColumn string nat nat   \<comment> \<open>\<open>- {col}: {count} missing ({count/len(self.df)*100:.1f}%)\<close>,
                                         with \<open>col\<close>, \<open>count\<close> and \<open>len(self.df)\<close>\<close>
  | RemovedDuplicates nat            \<comment> \<open>\<open>Removed {removed} duplicate rows\<close>\<close>
  | FilledIncome nat                 \<comment> \<open>\<open>Filled {missing_income} missing MonthlyIncome values ...\<close>\<close>
  | FilledSatisfaction nat cell      \<comment> \<open>\<open>Filled {missing_satisfaction} ... with mode ({mode_satisfaction})\<close>\<close>
  | StandardizedDepartment           \<comment> \<open>\<open>Standardized Department names\<close>\<close>
  | StandardizedGender               \<comment> \<open>\<open>Standardized Gender values\<close>\<close>
  | FixedNegativeIncome nat          \<comment> \<open>\<open>Fixed {negative_incomes} negative income values\<close>\<close>
  | CreatedAgeGroup                  \<comment> \<open>\<open>Created AgeGroup categories\<close>\<close>
  | CreatedIncomeCategory            \<comment> \<open>\<open>Created IncomeCategory based on quartiles\<close>\<close>

text \<open>
  The processor after \<open>load_data\<close>. The paths, \<open>original_shape\<close> and \<open>start_time\<close> are read
  only by \<open>load_data\<close>, \<open>save_processed_data\<close> and \<open>generate_processing_report\<close>, which
  do file input and output and are not part of this development.
\<close>

record processor =
  df :: dataframe
  processing_log :: "log_entry list"

text \<open>
  A stage mutates the processor in place and may raise: its outcome is the processor as
  the stage left it, and the exception if one was raised. The chained calls of \<open>main\<close>
  stop at the first exception.
\<close>

type_synonym outcome = "processor \<times> py_error option"

definition returns :: "processor \<Rightarrow> outcome" where
  "returns p = (p, None)"

definition raises :: "processor \<Rightarrow> py_error \<Rightarrow> outcome" where
  "raises p e = (p, Some e)"

definition and_then :: "outcome \<Rightarrow> (processor \<Rightarrow> outcome) \<Rightarrow> outcome" where
  "and_then r f = (case snd r of None \<Rightarrow> f (fst r) | Some e \<Rightarrow> r)"

section \<open>Columns of a frame\<close>

text \<open>\<open>df[name]\<close> for one record: the cell under the first column labelled \<open>name\<close>.\<close>

definition cell_of :: "string list \<Rightarrow> row \<Rightarrow> string \<Rightarrow> cell" where
  "cell_of cols r name = (case map_of (zip cols r) name of Some c \<Rightarrow> c | None \<Rightarrow> NaN)"

definition column :: "dataframe \<Rightarrow> string \<Rightarrow> cell list" where
  "column d name = map (\<lambda>r. cell_of (columns d) r name) (rows d)"

fun put_cell :: "string list \<Rightarrow> row \<Rightarrow> string \<Rightarrow> cell \<Rightarrow> row" where
  "put_cell (n # ns) (c # cs) name v =
     (if n = name then v # cs else c # put_cell ns cs name v)"
| "put_cell ns cs name v = cs"

text \<open>
  \<open>df[name] = series\<close>: an existing column is overwritten in place, a new one is
  appended as the last column.
\<close>

definition set_column :: "dataframe \<Rightarrow> string \<Rightarrow> cell list \<Rightarrow> dataframe" where
  "set_column d name vs =
     (if name \<in> set (columns d)
      then d\<lparr>rows := map2 (\<lambda>r v. put_cell (columns d) r name v) (rows d) vs\<rparr>
      else d\<lparr>columns := columns d @ [name], rows := map2 (\<lambda>r v. r @ [v]) (rows d) vs\<rparr>)"

text \<open>\<open>series.isnull().sum()\<close>\<close>

definition isnull_sum :: "cell list \<Rightarrow> nat" where
  "isnull_sum cs = length (filter (\<lambda>c. c = NaN) cs)"

section \<open>Assess and Deduplicate\<close>

text \<open>
  \<open>df.duplicated()\<close> (\<open>keep='first'\<close>): the mask that is \<open>True\<close> at a record equal, in
  every column, to a record seen before it. Missing cells count as equal to each other.
\<close>

fun duplicated_from :: "row list \<Rightarrow> row list \<Rightarrow> bool list" where
  "duplicated_from seen [] = []"
| "duplicated_from seen (r # rs) = (r \<in> set seen) # duplicated_from (r # seen) rs"

definition duplicated :: "dataframe \<Rightarrow> bool list" where
  "duplicated d = duplicated_from [] (rows d)"

text \<open>\<open>df.drop_duplicates()\<close> is \<open>df[~df.duplicated()]\<close>.\<close>

definition keep_unmasked :: "'a list \<Rightarrow> bool list \<Rightarrow> 'a list" where
  "keep_unmasked xs flags = map fst (filter (\<lambda>(x, m). \<not> m) (zip xs flags))"

definition drop_duplicates :: "dataframe \<Rightarrow> dataframe" where
  "drop_duplicates d = d\<lparr>rows := keep_unmasked (rows d) (duplicated d)\<rparr>"

text \<open>
  \<open>missing_summary[missing_summary > 0]\<close>: the columns with a missing cell, in column
  order, each with its count.
\<close>

definition missing_cols :: "dataframe \<Rightarrow> (string \<times> nat) list" where
  "missing_cols d =
     filter (\<lambda>(col, count). count > 0)
       (map (\<lambda>col. (col, isnull_sum (column d col))) (columns d))"

definition data_quality_assessment :: "processor \<Rightarrow> processor" where
  "data_quality_assessment p =
     (let duplicates = length (filter (\<lambda>m. m) (duplicated (df p)));
          found = [FoundDuplicates duplicates];
          missing =
            (if missing_cols (df p) \<noteq> []
             then MissingValuesFound #
                  map (\<lambda>(col, count). MissingInColumn col count (length (rows (df p))))
                    (missing_cols (df p))
             else [])
      in p\<lparr>processing_log := processing_log p @ found @ missing\<rparr>)"

definition remove_duplicates :: "processor \<Rightarrow> processor" where
  "remove_duplicates p =
     (let initial_count = length (rows (df p));
          d = drop_duplicates (df p);
          removed = initial_count - length (rows d)
      in p\<lparr>df := d, processing_log := processing_log p @ [RemovedDuplicates removed]\<rparr>)"

section \<open>Impute\<close>

definition is_str :: "cell \<Rightarrow> bool" where
  "is_str c = (case c of Str s \<Rightarrow> True | Num x \<Rightarrow> False | NaN \<Rightarrow> False)"

text \<open>The numbers of a column, missing cells skipped (\<open>skipna=True\<close>).\<close>

fun numbers :: "cell list \<Rightarrow> rat list" where
  "numbers [] = []"
| "numbers (Num x # cs) = x # numbers cs"
| "numbers (c # cs) = numbers cs"

text \<open>
  \<open>series.median()\<close>: the middle of the sorted present numbers (the mean of the two
  middle ones when their count is even), \<open>NaN\<close> when no number is present, and a
  \<open>TypeError\<close> on a column of strings.
\<close>

definition series_median :: "cell list \<Rightarrow> py_error + cell" where
  "series_median cs =
     (if list_ex is_str cs then Inl TypeError
      else (let xs = sort (numbers cs); n = length xs
            in if n = 0 then Inr NaN
               else if odd n then Inr (Num (xs ! (n div 2)))
               else Inr (Num ((xs ! (n div 2 - 1) + xs ! (n div 2)) / 2))))"

text \<open>\<open>series.fillna(v)\<close>\<close>

definition fillna :: "cell \<Rightarrow> cell list \<Rightarrow> cell list" where
  "fillna v cs = map (\<lambda>c. if c = NaN then v else c) cs"

text \<open>
  \<open>df.groupby('JobRole')['MonthlyIncome']\<close>: the income cells of the records whose
  \<open>JobRole\<close> is \<open>key\<close>.
\<close>

definition income_group :: "dataframe \<Rightarrow> cell \<Rightarrow> cell list" where
  "income_group d key =
     map (\<lambda>r. cell_of (columns d) r ''MonthlyIncome'')
       (filter (\<lambda>r. cell_of (columns d) r ''JobRole'' = key) (rows d))"

text \<open>
  \<open>.transform(lambda x: x.fillna(x.median()))\<close>, at one record: its own income, or its
  group's median when its income is missing. \<open>groupby\<close> drops the records whose key is
  missing (\<open>dropna=True\<close>), and \<open>transform\<close> gives them \<open>NaN\<close> (pandas 1.5 and later).
\<close>

definition transform_fillna_median :: "dataframe \<Rightarrow> row \<Rightarrow> py_error + cell" where
  "transform_fillna_median d r =
     (let key = cell_of (columns d) r ''JobRole'';
          own = cell_of (columns d) r ''MonthlyIncome''
      in if key = NaN then Inr NaN
         else (case series_median (income_group d key) of
                 Inl e \<Rightarrow> Inl e
               | Inr m \<Rightarrow> Inr (if own = NaN then m else own)))"

text \<open>The results of a computation per record: the first exception, or all the values.\<close>

fun collect :: "('e + 'a) list \<Rightarrow> 'e + 'a list" where
  "collect [] = Inr []"
| "collect (x # xs) =
     (case x of
        Inl e \<Rightarrow> Inl e
      | Inr v \<Rightarrow> (case collect xs of Inl e \<Rightarrow> Inl e | Inr vs \<Rightarrow> Inr (v # vs)))"

text \<open>Lines 59 to 67: missing \<open>MonthlyIncome\<close> is filled with the median of the job role.\<close>

definition fill_missing_income :: "processor \<Rightarrow> outcome" where
  "fill_missing_income p =
     (let d = df p
      in if ''MonthlyIncome'' \<in> set (columns d)
         then (let missing_income = isnull_sum (column d ''MonthlyIncome'')
               in if missing_income > 0
                  then (if ''JobRole'' \<in> set (columns d)
                        then (case collect (map (transform_fillna_median d) (rows d)) of
                                Inl e \<Rightarrow> raises p e
                              | Inr vs \<Rightarrow>
                                  returns (p\<lparr>df := set_column d ''MonthlyIncome'' vs,
                                            processing_log := processing_log p @
                                              [FilledIncome missing_income]\<rparr>))
                        else raises p KeyError)
                  else returns p)
         else returns p)"

text \<open>
  The order \<open>series.mode()\<close> sorts its result in: numbers by value, strings by code
  point. A column holds numbers or strings, not both; where it holds both, numbers come
  first here.
\<close>

fun str_le :: "string \<Rightarrow> string \<Rightarrow> bool" where
  "str_le [] t = True"
| "str_le (a # s) [] = False"
| "str_le (a # s) (b # t) = (if a = b then str_le s t else (of_char a :: nat) < of_char b)"

fun cell_le :: "cell \<Rightarrow> cell \<Rightarrow> bool" where
  "cell_le (Num x) (Num y) = (x \<le> y)"
| "cell_le (Str s) (Str t) = str_le s t"
| "cell_le (Num x) c = True"
| "cell_le (Str s) c = (c = NaN)"
| "cell_le NaN c = (c = NaN)"

fun insort_cell :: "cell \<Rightarrow> cell list \<Rightarrow> cell list" where
  "insort_cell c [] = [c]"
| "insort_cell c (x # xs) = (if cell_le c x then c # x # xs else x # insort_cell c xs)"

text \<open>
  \<open>series.mode()\<close>: the present values that occur most often, sorted; empty when every
  cell is missing.
\<close>

definition series_mode :: "cell list \<Rightarrow> cell list" where
  "series_mode cs =
     (let vs = filter (\<lambda>c. c \<noteq> NaN) cs;
          most = fold max (map (count_list vs) vs) 0
      in foldr insort_cell (remdups (filter (\<lambda>v. count_list vs v = most) vs)) [])"

text \<open>
  Lines 69 to 75: missing \<open>JobSatisfaction\<close> is filled with \<open>mode()[0]\<close>. Indexing the
  empty result of \<open>mode()\<close> with the label \<open>0\<close> raises \<open>KeyError\<close>. The \<open>fillna\<close> with
  \<open>inplace=True\<close> on the column writes through to the frame (pandas before 3.0).
\<close>

definition fill_missing_satisfaction :: "processor \<Rightarrow> outcome" where
  "fill_missing_satisfaction p =
     (let d = df p
      in if ''JobSatisfaction'' \<in> set (columns d)
         then (let missing_satisfaction = isnull_sum (column d ''JobSatisfaction'')
               in if missing_satisfaction > 0
                  then (case series_mode (column d ''JobSatisfaction'') of
                          [] \<Rightarrow> raises p KeyError
                        | mode_satisfaction # others \<Rightarrow>
                            returns (p\<lparr>df := set_column d ''JobSatisfaction''
                                             (fillna mode_satisfaction (column d ''JobSatisfaction'')),
                                      processing_log := processing_log p @
                                        [FilledSatisfaction missing_satisfaction mode_satisfaction]\<rparr>))
                  else returns p)
         else returns p)"

definition handle_missing_values :: "processor \<Rightarrow> outcome" where
  "handle_missing_values p = and_then (fill_missing_income p) fill_missing_satisfaction"

section \<open>Standardize\<close>

definition dept_mapping :: "(string \<times> string) list" where
  "dept_mapping =
     [(''SALES'', ''Sales''),
      (''sales'', ''Sales''),
      (''RESEARCH & DEVELOPMENT'', ''Research & Development''),
      (''research & development'', ''Research & Development''),
      (''HUMAN RESOURCES'', ''Human Resources''),
      (''human resources'', ''Human Resources'')]"

definition gender_mapping :: "(string \<times> string) list" where
  "gender_mapping =
     [(''M'', ''Male''),
      (''F'', ''Female''),
      (''m'', ''Male''),
      (''f'', ''Female'')]"

text \<open>\<open>series.replace(mapping)\<close> at one cell: a string that is a key becomes its value.\<close>

definition replace_cell :: "(string \<times> string) list \<Rightarrow> cell \<Rightarrow> cell" where
  "replace_cell mapping c =
     (case c of
        Str s \<Rightarrow> (case map_of mapping s of Some t \<Rightarrow> Str t | None \<Rightarrow> Str s)
      | Num x \<Rightarrow> Num x
      | NaN \<Rightarrow> NaN)"

definition standardize_department :: "processor \<Rightarrow> processor" where
  "standardize_department p =
     (let d = df p
      in if ''Department'' \<in> set (columns d)
         then p\<lparr>df := set_column d ''Department''
                         (map (replace_cell dept_mapping) (column d ''Department'')),
                 processing_log := processing_log p @ [StandardizedDepartment]\<rparr>
         else p)"

definition standardize_gender :: "processor \<Rightarrow> processor" where
  "standardize_gender p =
     (let d = df p
      in if ''Gender'' \<in> set (columns d)
         then p\<lparr>df := set_column d ''Gender''
                         (map (replace_cell gender_mapping) (column d ''Gender'')),
                 processing_log := processing_log p @ [StandardizedGender]\<rparr>
         else p)"

definition is_negative :: "cell \<Rightarrow> bool" where
  "is_negative c = (case c of Num x \<Rightarrow> x < 0 | Str s \<Rightarrow> False | NaN \<Rightarrow> False)"

definition abs_cell :: "cell \<Rightarrow> cell" where
  "abs_cell c = (case c of Num x \<Rightarrow> Num \<bar>x\<bar> | Str s \<Rightarrow> Str s | NaN \<Rightarrow> NaN)"

text \<open>
  Lines 109 to 114. Comparing a column of strings with \<open>0\<close> raises \<open>TypeError\<close>; the
  department and gender columns are already rewritten by then.
\<close>

definition fix_negative_income :: "processor \<Rightarrow> outcome" where
  "fix_negative_income p =
     (let d = df p
      in if ''MonthlyIncome'' \<in> set (columns d)
         then (if list_ex is_str (column d ''MonthlyIncome'') then raises p TypeError
               else (let negative_incomes = length (filter is_negative (column d ''MonthlyIncome''))
                     in if negative_incomes > 0
                        then returns (p\<lparr>df := set_column d ''MonthlyIncome''
                                                 (map abs_cell (column d ''MonthlyIncome'')),
                                         processing_log := processing_log p @
                                           [FixedNegativeIncome negative_incomes]\<rparr>)
                        else returns p))
         else returns p)"

definition standardize_data :: "processor \<Rightarrow> outcome" where
  "standardize_data p = fix_negative_income (standardize_gender (standardize_department p))"

section \<open>Derive\<close>

text \<open>A bin edge of \<open>pd.cut\<close>: a number, \<open>float('inf')\<close>, or \<open>NaN\<close> (a quantile of no data).\<close>

datatype edge = Edge rat | PosInf | NaNEdge

text \<open>\<open><\<close> on floats: nothing is below or above \<open>NaN\<close>.\<close>

fun edge_less :: "edge \<Rightarrow> edge \<Rightarrow> bool" where
  "edge_less (Edge a) (Edge b) = (a < b)"
| "edge_less (Edge a) PosInf = True"
| "edge_less a b = False"

text \<open>\<open>(np.diff(bins) < 0).any()\<close>\<close>

fun decreases :: "edge list \<Rightarrow> bool" where
  "decreases (a # b # bs) = (edge_less b a \<or> decreases (b # bs))"
| "decreases bs = False"

text \<open>\<open>bins.searchsorted(x, side='left')\<close> on increasing bins: how many edges are below \<open>x\<close>.\<close>

fun searchsorted_left :: "edge list \<Rightarrow> rat \<Rightarrow> nat" where
  "searchsorted_left [] x = 0"
| "searchsorted_left (b # bs) x =
     (if edge_less b (Edge x) then Suc (searchsorted_left bs x) else 0)"

text \<open>
  \<open>pd.cut\<close> at one cell with the defaults \<open>right=True\<close>, \<open>include_lowest=False\<close>: the label
  of the bin \<open>(bins[i-1], bins[i]]\<close> that holds the number; \<open>NaN\<close> for a missing cell, for a
  number at or below the first edge and for a number above the last.
\<close>

definition cut_cell :: "edge list \<Rightarrow> string list \<Rightarrow> cell \<Rightarrow> cell" where
  "cut_cell bins labels c =
     (case c of
        Num x \<Rightarrow>
          (let ids = searchsorted_left bins x
           in if ids = 0 \<or> ids = length bins then NaN else Str (labels ! (ids - 1)))
      | Str s \<Rightarrow> NaN
      | NaN \<Rightarrow> NaN)"

text \<open>
  \<open>pd.cut(series, bins=..., labels=...)\<close>: \<open>ValueError\<close> when the bins decrease or repeat
  an edge, \<open>TypeError\<close> on a column of strings.
\<close>

definition cut :: "cell list \<Rightarrow> edge list \<Rightarrow> string list \<Rightarrow> py_error + cell list" where
  "cut xs bins labels =
     (if decreases bins then Inl ValueError
      else if \<not> distinct bins \<and> length bins \<noteq> 2 then Inl ValueError
      else if list_ex is_str xs then Inl TypeError
      else if length labels \<noteq> length bins - 1 then Inl ValueError
      else Inr (map (cut_cell bins labels) xs))"

text \<open>
  \<open>series.quantile(q)\<close> with linear interpolation between the two closest ranks of the
  sorted present numbers: rank \<open>(n - 1) * q\<close> counted from zero. The value is the exact
  one; the code computes it in \<open>float64\<close>.
\<close>

definition quantile :: "rat \<Rightarrow> cell list \<Rightarrow> py_error + edge" where
  "quantile q cs =
     (if list_ex is_str cs then Inl TypeError
      else (let xs = sort (numbers cs); n = length xs
            in if n = 0 then Inr NaNEdge
               else (let h = of_nat (n - 1) * q; lo = nat \<lfloor>h\<rfloor>; hi = nat \<lceil>h\<rceil>
                     in Inr (Edge (xs ! lo + (xs ! hi - xs ! lo) * (h - of_nat lo))))))"

text \<open>Lines 123 to 128.\<close>

definition create_age_group :: "processor \<Rightarrow> outcome" where
  "create_age_group p =
     (let d = df p
      in if ''Age'' \<in> set (columns d)
         then (case cut (column d ''Age'')
                      [Edge 0, Edge 30, Edge 40, Edge 50, Edge 100]
                      [''Under 30'', ''30-40'', ''40-50'', ''50+''] of
                 Inl e \<Rightarrow> raises p e
               | Inr vs \<Rightarrow>
                   returns (p\<lparr>df := set_column d ''AgeGroup'' vs,
                              processing_log := processing_log p @ [CreatedAgeGroup]\<rparr>))
         else returns p)"

text \<open>Lines 130 to 137.\<close>

definition create_income_category :: "processor \<Rightarrow> outcome" where
  "create_income_category p =
     (let d = df p
      in if ''MonthlyIncome'' \<in> set (columns d)
         then (case quantile (1 / 4) (column d ''MonthlyIncome'') of
                 Inl e \<Rightarrow> raises p e
               | Inr q25 \<Rightarrow>
             (case quantile (1 / 2) (column d ''MonthlyIncome'') of
                 Inl e \<Rightarrow> raises p e
               | Inr q50 \<Rightarrow>
             (case quantile (3 / 4) (column d ''MonthlyIncome'') of
                 Inl e \<Rightarrow> raises p e
               | Inr q75 \<Rightarrow>
             (case cut (column d ''MonthlyIncome'')
                      [Edge 0, q25, q50, q75, PosInf]
                      [''Low'', ''Medium'', ''High'', ''Very High''] of
                 Inl e \<Rightarrow> raises p e
               | Inr vs \<Rightarrow>
                   returns (p\<lparr>df := set_column d ''IncomeCategory'' vs,
                              processing_log := processing_log p @ [CreatedIncomeCategory]\<rparr>)))))
         else returns p)"

definition create_derived_features :: "processor \<Rightarrow> outcome" where
  "create_derived_features p = and_then (create_age_group p) create_income_category"

section \<open>The pipeline of \<open>main\<close>\<close>

text \<open>
  The stages between \<open>load_data\<close> and \<open>save_processed_data\<close>, in the order \<open>main\<close> chains
  them. \<open>save_processed_data\<close> writes the frame this leaves.
\<close>

definition run_stages :: "processor \<Rightarrow> outcome" where
  "run_stages p =
     and_then
       (and_then (handle_missing_values (remove_duplicates (data_quality_assessment p)))
          standardize_data)
       create_derived_features"

section \<open>Properties of Deduplicate\<close>

lemma length_duplicated_from: "length (duplicated_from seen rs) = length rs"
  by (induction rs arbitrary: seen) simp_all

lemma keep_unmasked_Cons:
  "keep_unmasked (x # xs) (m # ms) = (if m then keep_unmasked xs ms else x # keep_unmasked xs ms)"
  by (simp add: keep_unmasked_def)

lemma keep_unmasked_Nil: "keep_unmasked [] ms = []"
  by (simp add: keep_unmasked_def)

lemma length_keep_unmasked: "length (keep_unmasked xs ms) \<le> length xs"
proof -
  have "length (filter (\<lambda>(x, m). \<not> m) (zip xs ms)) \<le> length (zip xs ms)"
    by (rule length_filter_le)
  then show ?thesis by (simp add: keep_unmasked_def)
qed

text \<open>The survivors, by position: the records that do not occur before themselves.\<close>

lemma keep_unmasked_nths:
  "keep_unmasked rs (duplicated_from seen rs) =
     nths rs {i. i < length rs \<and> rs ! i \<notin> set seen \<union> set (take i rs)}"
proof (induction rs arbitrary: seen)
  case Nil
  show ?case by (simp add: keep_unmasked_Nil)
next
  case (Cons r rs)
  have shift: "{j. Suc j \<in> {i. i < length (r # rs) \<and> (r # rs) ! i \<notin> set seen \<union> set (take i (r # rs))}}
      = {j. j < length rs \<and> rs ! j \<notin> set (r # seen) \<union> set (take j rs)}"
    by auto
  show ?case
    by (simp add: keep_unmasked_Cons nths_Cons Cons.IH shift del: Un_iff)
qed

lemma set_keep_unmasked:
  "set (keep_unmasked rs (duplicated_from seen rs)) = set rs - set seen"
proof (induction rs arbitrary: seen)
  case Nil
  show ?case by (simp add: keep_unmasked_Nil)
next
  case (Cons r rs)
  show ?case by (auto simp: keep_unmasked_Cons Cons.IH)
qed

lemma distinct_keep_unmasked:
  "distinct (keep_unmasked rs (duplicated_from seen rs))"
proof (induction rs arbitrary: seen)
  case Nil
  show ?case by (simp add: keep_unmasked_Nil)
next
  case (Cons r rs)
  show ?case by (simp add: keep_unmasked_Cons Cons.IH set_keep_unmasked)
qed

lemma keep_unmasked_distinct:
  "distinct rs \<Longrightarrow> set rs \<inter> set seen = {} \<Longrightarrow>
   keep_unmasked rs (duplicated_from seen rs) = rs"
proof (induction rs arbitrary: seen)
  case Nil
  show ?case by (simp add: keep_unmasked_Nil)
next
  case (Cons r rs)
  from Cons.prems have "r \<notin> set seen" "distinct rs" "set rs \<inter> set (r # seen) = {}"
    by auto
  then show ?case by (simp add: keep_unmasked_Cons Cons.IH)
qed

lemma subseq_keep_unmasked: "subseq (keep_unmasked rs ms) rs"
proof (induction rs arbitrary: ms)
  case Nil
  show ?case by (simp add: keep_unmasked_Nil)
next
  case (Cons r rs)
  show ?case
  proof (cases ms)
    case Nil
    then show ?thesis by (simp add: keep_unmasked_def)
  next
    case (Cons m ms')
    then show ?thesis using Cons.IH [of ms']
      by (auto simp: keep_unmasked_Cons intro: list_emb_Cons)
  qed
qed

text \<open>
  C6. Deduplicating twice gives the frame that deduplicating once gives, the second run
  removes (and logs) zero records, and deduplicating never adds a record.
\<close>

theorem remove_duplicates_idempotent:
  "df (remove_duplicates (remove_duplicates p)) = df (remove_duplicates p)
   \<and> processing_log (remove_duplicates (remove_duplicates p))
       = processing_log (remove_duplicates p) @ [RemovedDuplicates 0]
   \<and> drop_duplicates (drop_duplicates d) = drop_duplicates d
   \<and> length (rows (drop_duplicates d)) \<le> length (rows d)
   \<and> length (rows (df (remove_duplicates p))) \<le> length (rows (df p))"
proof -
  have idem: "drop_duplicates (drop_duplicates e) = drop_duplicates e" for e
  proof -
    have "keep_unmasked (keep_unmasked (rows e) (duplicated_from [] (rows e)))
            (duplicated_from [] (keep_unmasked (rows e) (duplicated_from [] (rows e))))
          = keep_unmasked (rows e) (duplicated_from [] (rows e))"
      by (rule keep_unmasked_distinct) (simp_all add: distinct_keep_unmasked)
    then show ?thesis by (simp add: drop_duplicates_def duplicated_def)
  qed
  have len: "length (rows (drop_duplicates e)) \<le> length (rows e)" for e
    by (simp add: drop_duplicates_def length_keep_unmasked)
  show ?thesis
    by (simp add: remove_duplicates_def Let_def idem len)
qed

text \<open>
  C9. Deduplicate keeps exactly the records that are not equal to an earlier record
  (the first occurrence of each distinct record), in their original order; what it logs
  is the number of records it removed.
\<close>

theorem remove_duplicates_keeps_first:
  "rows (df (remove_duplicates p))
     = nths (rows (df p)) {i. i < length (rows (df p)) \<and> rows (df p) ! i \<notin> set (take i (rows (df p)))}
   \<and> subseq (rows (df (remove_duplicates p))) (rows (df p))
   \<and> distinct (rows (df (remove_duplicates p)))
   \<and> set (rows (df (remove_duplicates p))) = set (rows (df p))
   \<and> columns (df (remove_duplicates p)) = columns (df p)
   \<and> processing_log (remove_duplicates p)
       = processing_log p @
         [RemovedDuplicates (length (rows (df p)) - length (rows (df (remove_duplicates p))))]"
proof -
  have r: "rows (df (remove_duplicates p))
      = keep_unmasked (rows (df p)) (duplicated_from [] (rows (df p)))"
    by (simp add: remove_duplicates_def Let_def drop_duplicates_def duplicated_def)
  have "rows (df (remove_duplicates p))
      = nths (rows (df p)) {i. i < length (rows (df p)) \<and> rows (df p) ! i \<notin> set (take i (rows (df p)))}"
    using keep_unmasked_nths [of "rows (df p)" "[]"] by (simp add: r)
  moreover have "subseq (rows (df (remove_duplicates p))) (rows (df p))"
    by (simp add: r subseq_keep_unmasked)
  moreover have "distinct (rows (df (remove_duplicates p)))"
    by (simp add: r distinct_keep_unmasked)
  moreover have "set (rows (df (remove_duplicates p))) = set (rows (df p))"
    by (simp add: r set_keep_unmasked)
  moreover have "columns (df (remove_duplicates p)) = columns (df p)"
    by (simp add: remove_duplicates_def Let_def drop_duplicates_def)
  moreover have "processing_log (remove_duplicates p)
       = processing_log p @
         [RemovedDuplicates (length (rows (df p)) - length (rows (df (remove_duplicates p))))]"
    by (simp add: remove_duplicates_def Let_def)
  ultimately show ?thesis by blast
qed

section \<open>Properties of column access\<close>

lemma length_put_cell: "length (put_cell cols r name v) = length r"
  by (induction cols r name v rule: put_cell.induct) simp_all

lemma cell_of_put_cell_other:
  "other \<noteq> name \<Longrightarrow> cell_of cols (put_cell cols r name v) other = cell_of cols r other"
  by (induction cols r name v rule: put_cell.induct) (simp_all add: cell_of_def)

lemma cell_of_put_cell_same:
  "name \<in> set cols \<Longrightarrow> length r = length cols \<Longrightarrow> cell_of cols (put_cell cols r name v) name = v"
  by (induction cols r name v rule: put_cell.induct) (auto simp: cell_of_def)

lemma cell_of_append_same:
  "name \<notin> set cols \<Longrightarrow> length r = length cols \<Longrightarrow> cell_of (cols @ [name]) (r @ [v]) name = v"
  by (auto simp: cell_of_def map_add_def split: option.split dest: map_of_SomeD set_zip_leftD)

lemma cell_of_append_other:
  "other \<noteq> name \<Longrightarrow> length r = length cols \<Longrightarrow>
   cell_of (cols @ [name]) (r @ [v]) other = cell_of cols r other"
  by (auto simp: cell_of_def map_add_def split: option.split dest: map_of_SomeD set_zip_leftD)

lemma length_column: "length (column d name) = length (rows d)"
  by (simp add: column_def)

lemma columns_set_column:
  "columns (set_column d name vs)
     = (if name \<in> set (columns d) then columns d else columns d @ [name])"
  by (simp add: set_column_def)

lemma length_rows_set_column:
  "length vs = length (rows d) \<Longrightarrow> length (rows (set_column d name vs)) = length (rows d)"
  by (simp add: set_column_def)

lemma wf_set_column: "wf_dataframe d \<Longrightarrow> wf_dataframe (set_column d name vs)"
  by (auto simp: wf_dataframe_def set_column_def list_all_iff length_put_cell dest!: set_zip_leftD)

lemma column_set_column_same:
  assumes "wf_dataframe d" and "length vs = length (rows d)"
  shows "column (set_column d name vs) name = vs"
proof (rule nth_equalityI)
  show "length (column (set_column d name vs) name) = length vs"
    using assms by (simp add: length_column length_rows_set_column)
next
  fix i assume "i < length (column (set_column d name vs) name)"
  then have i: "i < length (rows d)"
    using assms by (simp add: length_column length_rows_set_column)
  then have "length (rows d ! i) = length (columns d)"
    using assms(1) by (simp add: wf_dataframe_def list_all_length)
  then show "column (set_column d name vs) name ! i = vs ! i"
    using i assms(2)
    by (simp add: column_def set_column_def cell_of_put_cell_same cell_of_append_same)
qed

lemma column_set_column_other:
  assumes "wf_dataframe d" and "length vs = length (rows d)" and "other \<noteq> name"
  shows "column (set_column d name vs) other = column d other"
proof (rule nth_equalityI)
  show "length (column (set_column d name vs) other) = length (column d other)"
    using assms by (simp add: length_column length_rows_set_column)
next
  fix i assume "i < length (column (set_column d name vs) other)"
  then have i: "i < length (rows d)"
    using assms by (simp add: length_column length_rows_set_column)
  then have "length (rows d ! i) = length (columns d)"
    using assms(1) by (simp add: wf_dataframe_def list_all_length)
  then show "column (set_column d name vs) other ! i = column d other ! i"
    using i assms(2,3)
    by (simp add: column_def set_column_def cell_of_put_cell_other cell_of_append_other)
qed

lemma cell_of_absent: "name \<notin> set cols \<Longrightarrow> cell_of cols r name = NaN"
  by (auto simp: cell_of_def split: option.split dest: map_of_SomeD set_zip_leftD)

lemma column_absent: "name \<notin> set (columns d) \<Longrightarrow> column d name = map (\<lambda>r. NaN) (rows d)"
  by (simp add: column_def cell_of_absent)

lemma column_set_column_present_other:
  assumes "name \<in> set (columns d)" and "length vs = length (rows d)" and "other \<noteq> name"
  shows "column (set_column d name vs) other = column d other"
proof (rule nth_equalityI)
  show "length (column (set_column d name vs) other) = length (column d other)"
    using assms by (simp add: length_column length_rows_set_column)
next
  fix i assume "i < length (column (set_column d name vs) other)"
  then have i: "i < length (rows d)"
    using assms by (simp add: length_column length_rows_set_column)
  then show "column (set_column d name vs) other ! i = column d other ! i"
    using assms by (simp add: column_def set_column_def cell_of_put_cell_other)
qed

lemma replace_cell_NaN: "replace_cell m NaN = NaN"
  by (simp add: replace_cell_def)

text \<open>Rewriting one column with a function that keeps missing cells missing.\<close>

lemma column_rewrite:
  assumes "wf_dataframe d" and "f NaN = NaN"
  shows "column (if name \<in> set (columns d) then set_column d name (map f (column d name)) else d) other
     = (if other = name then map f (column d name) else column d other)"
proof (cases "name \<in> set (columns d)")
  case True
  then show ?thesis
    using assms(1) by (simp add: column_set_column_same column_set_column_other length_column)
next
  case False
  then show ?thesis using assms(2) by (simp add: column_absent)
qed

section \<open>Properties of Assess\<close>

lemma count_duplicated_from:
  "length (filter (\<lambda>m. m) (duplicated_from seen rs))
     = length rs - length (keep_unmasked rs (duplicated_from seen rs))"
proof (induction rs arbitrary: seen)
  case Nil
  show ?case by (simp add: keep_unmasked_Nil)
next
  case (Cons r rs)
  have "length (keep_unmasked rs (duplicated_from (r # seen) rs)) \<le> length rs"
    by (rule length_keep_unmasked)
  then show ?case by (simp add: keep_unmasked_Cons Cons.IH Suc_diff_le)
qed

text \<open>
  C10. Assess leaves the frame as it was. It appends to the log, after the entries that
  were there, the number of duplicate records (the number Deduplicate would remove) and
  then one entry for each column with missing cells, with its count.
\<close>

theorem data_quality_assessment_frame:
  "df (data_quality_assessment p) = df p
   \<and> (\<exists>entries.
        processing_log (data_quality_assessment p)
          = processing_log p
            @ FoundDuplicates (length (rows (df p)) - length (rows (drop_duplicates (df p))))
            # entries
        \<and> (\<forall>col n total.
              MissingInColumn col n total \<in> set entries \<longleftrightarrow>
                (col \<in> set (columns (df p)) \<and> n = isnull_sum (column (df p) col)
                 \<and> 0 < n \<and> total = length (rows (df p)))))"
proof -
  define entries where "entries =
     (if missing_cols (df p) \<noteq> []
      then MissingValuesFound #
           map (\<lambda>(col, count). MissingInColumn col count (length (rows (df p))))
             (missing_cols (df p))
      else [])"
  have log: "processing_log (data_quality_assessment p)
      = processing_log p
        @ FoundDuplicates (length (rows (df p)) - length (rows (drop_duplicates (df p))))
        # entries"
    by (simp add: data_quality_assessment_def Let_def entries_def duplicated_def
        drop_duplicates_def count_duplicated_from)
  have mem: "MissingInColumn col n total \<in> set entries \<longleftrightarrow>
      (col \<in> set (columns (df p)) \<and> n = isnull_sum (column (df p) col)
       \<and> 0 < n \<and> total = length (rows (df p)))" for col n total
  proof (cases "missing_cols (df p) = []")
    case True
    then have "\<not> (col \<in> set (columns (df p)) \<and> 0 < isnull_sum (column (df p) col))"
      by (auto simp: missing_cols_def filter_empty_conv)
    with True show ?thesis by (auto simp: entries_def)
  next
    case False
    then show ?thesis by (auto simp: entries_def missing_cols_def)
  qed
  have "df (data_quality_assessment p) = df p"
    by (simp add: data_quality_assessment_def Let_def)
  with log mem show ?thesis by blast
qed

section \<open>Properties of Standardize\<close>

lemma standardize_department_df:
  assumes "wf_dataframe (df p)"
  shows "wf_dataframe (df (standardize_department p))"
    and "columns (df (standardize_department p)) = columns (df p)"
    and "column (df (standardize_department p)) name
          = (if name = ''Department'' then map (replace_cell dept_mapping) (column (df p) name)
             else column (df p) name)"
proof -
  show "wf_dataframe (df (standardize_department p))"
    using assms by (simp add: standardize_department_def Let_def wf_set_column)
  show "columns (df (standardize_department p)) = columns (df p)"
    by (simp add: standardize_department_def Let_def columns_set_column)
  have "df (standardize_department p)
      = (if ''Department'' \<in> set (columns (df p))
         then set_column (df p) ''Department''
                (map (replace_cell dept_mapping) (column (df p) ''Department''))
         else df p)"
    by (simp add: standardize_department_def Let_def)
  then show "column (df (standardize_department p)) name
          = (if name = ''Department'' then map (replace_cell dept_mapping) (column (df p) name)
             else column (df p) name)"
    using column_rewrite [OF assms, of "replace_cell dept_mapping" "''Department''" name]
    by (simp add: replace_cell_NaN)
qed

lemma standardize_gender_df:
  assumes "wf_dataframe (df p)"
  shows "wf_dataframe (df (standardize_gender p))"
    and "columns (df (standardize_gender p)) = columns (df p)"
    and "column (df (standardize_gender p)) name
          = (if name = ''Gender'' then map (replace_cell gender_mapping) (column (df p) name)
             else column (df p) name)"
proof -
  show "wf_dataframe (df (standardize_gender p))"
    using assms by (simp add: standardize_gender_def Let_def wf_set_column)
  show "columns (df (standardize_gender p)) = columns (df p)"
    by (simp add: standardize_gender_def Let_def columns_set_column)
  have "df (standardize_gender p)
      = (if ''Gender'' \<in> set (columns (df p))
         then set_column (df p) ''Gender''
                (map (replace_cell gender_mapping) (column (df p) ''Gender''))
         else df p)"
    by (simp add: standardize_gender_def Let_def)
  then show "column (df (standardize_gender p)) name
          = (if name = ''Gender'' then map (replace_cell gender_mapping) (column (df p) name)
             else column (df p) name)"
    using column_rewrite [OF assms, of "replace_cell gender_mapping" "''Gender''" name]
    by (simp add: replace_cell_NaN)
qed

lemma fix_negative_income_df:
  "columns (df (fst (fix_negative_income p))) = columns (df p)"
  "name \<noteq> ''MonthlyIncome'' \<Longrightarrow>
     column (df (fst (fix_negative_income p))) name = column (df p) name"
  "snd (fix_negative_income p)
     = (if ''MonthlyIncome'' \<in> set (columns (df p)) \<and> list_ex is_str (column (df p) ''MonthlyIncome'')
        then Some TypeError else None)"
  by (simp_all add: fix_negative_income_def Let_def returns_def raises_def columns_set_column
      column_set_column_present_other length_column)

lemma replace_cell_unmapped:
  "replace_cell mapping c = c" if "c \<notin> Str ` fst ` set mapping"
proof (cases c)
  case (Str s)
  with that have "map_of mapping s = None"
    by (auto simp: map_of_eq_None_iff)
  with Str show ?thesis by (simp add: replace_cell_def)
qed (simp_all add: replace_cell_def)

text \<open>
  C7. Standardize rewrites the \<open>Department\<close> column through the department table and the
  \<open>Gender\<close> column through the gender table, whether or not the income check that
  follows raises: each spelling in a table becomes its canonical label, and every cell
  that is not a key of the table stays as it is. The column labels and every column
  other than these two and \<open>MonthlyIncome\<close> are left alone.
\<close>

theorem standardize_data_maps:
  assumes "wf_dataframe (df p)"
  shows "column (df (fst (standardize_data p))) ''Department''
           = map (replace_cell dept_mapping) (column (df p) ''Department'')
   \<and> column (df (fst (standardize_data p))) ''Gender''
           = map (replace_cell gender_mapping) (column (df p) ''Gender'')
   \<and> map (replace_cell dept_mapping)
       [Str ''SALES'', Str ''sales'', Str ''RESEARCH & DEVELOPMENT'',
        Str ''research & development'', Str ''HUMAN RESOURCES'', Str ''human resources'',
        Str ''Engineering'']
     = [Str ''Sales'', Str ''Sales'', Str ''Research & Development'',
        Str ''Research & Development'', Str ''Human Resources'', Str ''Human Resources'',
        Str ''Engineering'']
   \<and> map (replace_cell gender_mapping) [Str ''M'', Str ''m'', Str ''F'', Str ''f'']
     = [Str ''Male'', Str ''Male'', Str ''Female'', Str ''Female'']
   \<and> (\<forall>c. c \<notin> Str ` fst ` set dept_mapping \<longrightarrow> replace_cell dept_mapping c = c)
   \<and> (\<forall>c. c \<notin> Str ` fst ` set gender_mapping \<longrightarrow> replace_cell gender_mapping c = c)
   \<and> columns (df (fst (standardize_data p))) = columns (df p)
   \<and> (\<forall>name. name \<notin> {''Department'', ''Gender'', ''MonthlyIncome''} \<longrightarrow>
         column (df (fst (standardize_data p))) name = column (df p) name)
   \<and> snd (standardize_data p)
       = (if ''MonthlyIncome'' \<in> set (columns (df p))
             \<and> list_ex is_str (column (df p) ''MonthlyIncome'')
          then Some TypeError else None)"
proof -
  let ?p1 = "standardize_department p"
  let ?p2 = "standardize_gender ?p1"
  have wf1: "wf_dataframe (df ?p1)"
    using assms by (rule standardize_department_df)
  have col: "column (df (fst (standardize_data p))) name
      = (if name = ''Gender'' then map (replace_cell gender_mapping) (column (df p) name)
         else if name = ''Department'' then map (replace_cell dept_mapping) (column (df p) name)
         else column (df p) name)" if "name \<noteq> ''MonthlyIncome''" for name
    using that
    by (simp add: standardize_data_def fix_negative_income_df(2)
        standardize_gender_df(3) [OF wf1] standardize_department_df(3) [OF assms])
  have dept: "column (df (fst (standardize_data p))) ''Department''
           = map (replace_cell dept_mapping) (column (df p) ''Department'')"
    by (simp add: col)
  have gender: "column (df (fst (standardize_data p))) ''Gender''
           = map (replace_cell gender_mapping) (column (df p) ''Gender'')"
    by (simp add: col)
  have others: "\<forall>name. name \<notin> {''Department'', ''Gender'', ''MonthlyIncome''} \<longrightarrow>
         column (df (fst (standardize_data p))) name = column (df p) name"
    by (simp add: col)
  have cols: "columns (df (fst (standardize_data p))) = columns (df p)"
    by (simp add: standardize_data_def fix_negative_income_df(1)
        standardize_gender_df(2) [OF wf1] standardize_department_df(2) [OF assms])
  have table_dept: "map (replace_cell dept_mapping)
       [Str ''SALES'', Str ''sales'', Str ''RESEARCH & DEVELOPMENT'',
        Str ''research & development'', Str ''HUMAN RESOURCES'', Str ''human resources'',
        Str ''Engineering'']
     = [Str ''Sales'', Str ''Sales'', Str ''Research & Development'',
        Str ''Research & Development'', Str ''Human Resources'', Str ''Human Resources'',
        Str ''Engineering'']"
    by (simp add: replace_cell_def dept_mapping_def)
  have table_gender: "map (replace_cell gender_mapping) [Str ''M'', Str ''m'', Str ''F'', Str ''f'']
     = [Str ''Male'', Str ''Male'', Str ''Female'', Str ''Female'']"
    by (simp add: replace_cell_def gender_mapping_def)
  have raise: "snd (standardize_data p)
       = (if ''MonthlyIncome'' \<in> set (columns (df p))
             \<and> list_ex is_str (column (df p) ''MonthlyIncome'')
          then Some TypeError else None)"
    by (simp add: standardize_data_def fix_negative_income_df(3)
        standardize_gender_df(2,3) [OF wf1] standardize_department_df(2,3) [OF assms])
  have unmapped_dept: "\<forall>c. c \<notin> Str ` fst ` set dept_mapping \<longrightarrow> replace_cell dept_mapping c = c"
    by (simp add: replace_cell_unmapped)
  have unmapped_gender: "\<forall>c. c \<notin> Str ` fst ` set gender_mapping \<longrightarrow> replace_cell gender_mapping c = c"
    by (simp add: replace_cell_unmapped)
  from dept gender table_dept table_gender unmapped_dept unmapped_gender cols others raise
  show ?thesis by blast
qed

theorem standardize_data_maps_witness:
  "wf_dataframe \<lparr>columns = [''Department'', ''Gender'', ''MonthlyIncome''],
                 rows = [[Str ''SALES'', Str ''m'', Num (- 4000)],
                         [Str ''sales'', Str ''F'', Num 5000],
                         [Str ''Engineering'', Str ''Male'', NaN]]\<rparr>
   \<and> column (df (fst (standardize_data
         \<lparr>df = \<lparr>columns = [''Department'', ''Gender'', ''MonthlyIncome''],
                rows = [[Str ''SALES'', Str ''m'', Num (- 4000)],
                        [Str ''sales'', Str ''F'', Num 5000],
                        [Str ''Engineering'', Str ''Male'', NaN]]\<rparr>,
          processing_log = []\<rparr>))) ''Department''
       = [Str ''Sales'', Str ''Sales'', Str ''Engineering'']
   \<and> column (df (fst (standardize_data
         \<lparr>df = \<lparr>columns = [''Department'', ''Gender'', ''MonthlyIncome''],
                rows = [[Str ''SALES'', Str ''m'', Num (- 4000)],
                        [Str ''sales'', Str ''F'', Num 5000],
                        [Str ''Engineering'', Str ''Male'', NaN]]\<rparr>,
          processing_log = []\<rparr>))) ''Gender''
       = [Str ''Male'', Str ''Female'', Str ''Male'']
   \<and> snd (standardize_data
         \<lparr>df = \<lparr>columns = [''Department'', ''Gender'', ''MonthlyIncome''],
                rows = [[Str ''SALES'', Str ''m'', Num (- 4000)],
                        [Str ''sales'', Str ''F'', Num 5000],
                        [Str ''Engineering'', Str ''Male'', NaN]]\<rparr>,
          processing_log = []\<rparr>) = None"
proof -
  let ?d = "\<lparr>columns = [''Department'', ''Gender'', ''MonthlyIncome''],
             rows = [[Str ''SALES'', Str ''m'', Num (- 4000)],
                     [Str ''sales'', Str ''F'', Num 5000],
                     [Str ''Engineering'', Str ''Male'', NaN]]\<rparr>"
  let ?p = "\<lparr>df = ?d, processing_log = []\<rparr>"
  have wf: "wf_dataframe ?d" by code_simp
  have dept: "map (replace_cell dept_mapping) (column ?d ''Department'')
      = [Str ''Sales'', Str ''Sales'', Str ''Engineering'']" by code_simp
  have gender: "map (replace_cell gender_mapping) (column ?d ''Gender'')
      = [Str ''Male'', Str ''Female'', Str ''Male'']" by code_simp
  have income: "(if ''MonthlyIncome'' \<in> set (columns ?d) \<and> list_ex is_str (column ?d ''MonthlyIncome'')
      then Some TypeError else None) = None" by code_simp
  from wf have "wf_dataframe (df ?p)" by simp
  from standardize_data_maps [OF this] wf dept gender income show ?thesis by simp
qed

section \<open>Properties of Impute\<close>

text \<open>
  C8. On a frame whose \<open>MonthlyIncome\<close> column has no missing cell, the income block of
  Impute does nothing at all, and the whole stage leaves that column as it was.
\<close>

theorem impute_income_noop:
  assumes "NaN \<notin> set (column (df p) ''MonthlyIncome'')"
  shows "fill_missing_income p = (p, None)
   \<and> column (df (fst (handle_missing_values p))) ''MonthlyIncome''
       = column (df p) ''MonthlyIncome''"
proof -
  from assms have "filter (\<lambda>c. c = NaN) (column (df p) ''MonthlyIncome'') = []"
    by (auto simp: filter_empty_conv)
  then have income: "fill_missing_income p = (p, None)"
    by (simp add: fill_missing_income_def Let_def isnull_sum_def returns_def)
  then have "handle_missing_values p = fill_missing_satisfaction p"
    by (simp add: handle_missing_values_def and_then_def)
  moreover have "column (df (fst (fill_missing_satisfaction p))) ''MonthlyIncome''
       = column (df p) ''MonthlyIncome''"
    by (simp add: fill_missing_satisfaction_def Let_def returns_def raises_def fillna_def
        column_set_column_present_other length_column split: list.split)
  ultimately show ?thesis using income by simp
qed

theorem impute_income_noop_witness:
  "NaN \<notin> set (column
       \<lparr>columns = [''JobRole'', ''MonthlyIncome'', ''JobSatisfaction''],
        rows = [[Str ''Manager'', Num 5000, Num 3], [Str ''Manager'', Num 7000, NaN],
                [Str ''Clerk'', Num 2000, Num 3]]\<rparr> ''MonthlyIncome'')
   \<and> handle_missing_values
       \<lparr>df = \<lparr>columns = [''JobRole'', ''MonthlyIncome'', ''JobSatisfaction''],
              rows = [[Str ''Manager'', Num 5000, Num 3], [Str ''Manager'', Num 7000, NaN],
                      [Str ''Clerk'', Num 2000, Num 3]]\<rparr>,
        processing_log = []\<rparr>
     = (\<lparr>df = \<lparr>columns = [''JobRole'', ''MonthlyIncome'', ''JobSatisfaction''],
               rows = [[Str ''Manager'', Num 5000, Num 3], [Str ''Manager'', Num 7000, Num 3],
                       [Str ''Clerk'', Num 2000, Num 3]]\<rparr>,
         processing_log = [FilledSatisfaction 1 (Num 3)]\<rparr>, None)
   \<and> column (df (fst (handle_missing_values
       \<lparr>df = \<lparr>columns = [''JobRole'', ''MonthlyIncome'', ''JobSatisfaction''],
              rows = [[Str ''Manager'', Num 5000, Num 3], [Str ''Manager'', Num 7000, NaN],
                      [Str ''Clerk'', Num 2000, Num 3]]\<rparr>,
        processing_log = []\<rparr>))) ''MonthlyIncome''
     = [Num 5000, Num 7000, Num 2000]"
proof -
  let ?d = "\<lparr>columns = [''JobRole'', ''MonthlyIncome'', ''JobSatisfaction''],
        rows = [[Str ''Manager'', Num 5000, Num 3], [Str ''Manager'', Num 7000, NaN],
                [Str ''Clerk'', Num 2000, Num 3]]\<rparr>"
  let ?p = "\<lparr>df = ?d, processing_log = []\<rparr>"
  have col: "column ?d ''MonthlyIncome'' = [Num 5000, Num 7000, Num 2000]" by code_simp
  then have present: "NaN \<notin> set (column (df ?p) ''MonthlyIncome'')" by simp
  have run: "handle_missing_values ?p
     = (\<lparr>df = \<lparr>columns = [''JobRole'', ''MonthlyIncome'', ''JobSatisfaction''],
               rows = [[Str ''Manager'', Num 5000, Num 3], [Str ''Manager'', Num 7000, Num 3],
                       [Str ''Clerk'', Num 2000, Num 3]]\<rparr>,
         processing_log = [FilledSatisfaction 1 (Num 3)]\<rparr>, None)" by code_simp
  from impute_income_noop [OF present] col present run show ?thesis by simp
qed

lemma numbers_all_missing: "set cs \<subseteq> {NaN} \<Longrightarrow> numbers cs = []"
  by (induction cs rule: numbers.induct) simp_all

text \<open>
  A record whose job role has no income at all keeps its income missing: the median of
  its group is \<open>NaN\<close>, and \<open>fillna(NaN)\<close> fills nothing.
\<close>

lemma all_missing_group_stays_missing:
  assumes "r \<in> set (rows d)"
    and "set (income_group d (cell_of (columns d) r ''JobRole'')) \<subseteq> {NaN}"
  shows "transform_fillna_median d r = Inr NaN"
proof -
  let ?key = "cell_of (columns d) r ''JobRole''"
  from assms(1) have "cell_of (columns d) r ''MonthlyIncome'' \<in> set (income_group d ?key)"
    by (simp add: income_group_def)
  with assms(2) have own: "cell_of (columns d) r ''MonthlyIncome'' = NaN"
    by auto
  from assms(2) have "\<not> list_ex is_str (income_group d ?key)"
    by (auto simp: list_ex_iff is_str_def)
  with assms(2) have "series_median (income_group d ?key) = Inr NaN"
    by (simp add: series_median_def numbers_all_missing)
  with own show ?thesis
    by (simp add: transform_fillna_median_def Let_def)
qed

lemma impute_all_missing_group_example:
  "handle_missing_values
     \<lparr>df = \<lparr>columns = [''JobRole'', ''MonthlyIncome''],
            rows = [[Str ''Manager'', Num 5000], [Str ''Clerk'', NaN], [Str ''Manager'', NaN],
                    [Str ''Manager'', Num 7000], [Str ''Clerk'', NaN]]\<rparr>,
      processing_log = []\<rparr>
   = (\<lparr>df = \<lparr>columns = [''JobRole'', ''MonthlyIncome''],
             rows = [[Str ''Manager'', Num 5000], [Str ''Clerk'', NaN], [Str ''Manager'', Num 6000],
                     [Str ''Manager'', Num 7000], [Str ''Clerk'', NaN]]\<rparr>,
       processing_log = [FilledIncome 3]\<rparr>,
      None)"
  by code_simp

section \<open>Properties of Derive\<close>

lemma quantile_Inr_numeric: "quantile q cs = Inr e \<Longrightarrow> \<not> list_ex is_str cs"
  by (simp add: quantile_def split: if_splits)

lemma cut_cell_quartiles:
  assumes "0 < a" and "a < b" and "b < c"
  shows "cut_cell [Edge 0, Edge a, Edge b, Edge c, PosInf] [l1, l2, l3, l4] v
     = (case v of
          Num x \<Rightarrow>
            (if x \<le> 0 then NaN
             else if x \<le> a then Str l1
             else if x \<le> b then Str l2
             else if x \<le> c then Str l3
             else Str l4)
        | Str s \<Rightarrow> NaN
        | NaN \<Rightarrow> NaN)"
  using assms by (cases v) (auto simp: cut_cell_def Let_def)

lemma cut_quartiles:
  assumes "0 < a" and "a < b" and "b < c" and "\<not> list_ex is_str xs"
  shows "cut xs [Edge 0, Edge a, Edge b, Edge c, PosInf] [l1, l2, l3, l4]
     = Inr (map (cut_cell [Edge 0, Edge a, Edge b, Edge c, PosInf] [l1, l2, l3, l4]) xs)"
  using assms by (simp add: cut_def)

text \<open>The age group of every age: each bin excludes its left edge and includes its right.\<close>

lemma age_group_of_age:
  "cut_cell [Edge 0, Edge 30, Edge 40, Edge 50, Edge 100]
       [''Under 30'', ''30-40'', ''40-50'', ''50+''] (Num a)
     = (if a \<le> 0 then NaN
        else if a \<le> 30 then Str ''Under 30''
        else if a \<le> 40 then Str ''30-40''
        else if a \<le> 50 then Str ''40-50''
        else if a \<le> 100 then Str ''50+''
        else NaN)"
  by (auto simp: cut_cell_def Let_def)

lemma create_age_group_df:
  assumes "wf_dataframe (df p)" and "\<not> list_ex is_str (column (df p) ''Age'')"
  shows "snd (create_age_group p) = None"
    and "wf_dataframe (df (fst (create_age_group p)))"
    and "set (columns (df p)) \<subseteq> set (columns (df (fst (create_age_group p))))"
    and "name \<noteq> ''AgeGroup'' \<Longrightarrow>
           column (df (fst (create_age_group p))) name = column (df p) name"
proof -
  have run: "create_age_group p
      = (if ''Age'' \<in> set (columns (df p))
         then (p\<lparr>df := set_column (df p) ''AgeGroup''
                    (map (cut_cell [Edge 0, Edge 30, Edge 40, Edge 50, Edge 100]
                            [''Under 30'', ''30-40'', ''40-50'', ''50+''])
                       (column (df p) ''Age'')),
                  processing_log := processing_log p @ [CreatedAgeGroup]\<rparr>, None)
         else (p, None))"
    using assms(2) by (simp add: create_age_group_def Let_def cut_def returns_def)
  show "snd (create_age_group p) = None"
    by (simp add: run)
  show "wf_dataframe (df (fst (create_age_group p)))"
    using assms(1) by (simp add: run wf_set_column)
  show "set (columns (df p)) \<subseteq> set (columns (df (fst (create_age_group p))))"
    by (auto simp: run columns_set_column)
  show "column (df (fst (create_age_group p))) name = column (df p) name"
    if "name \<noteq> ''AgeGroup''"
    using that assms(1) by (simp add: run column_set_column_other length_column)
qed

text \<open>
  Where the three quartiles of the \<open>MonthlyIncome\<close> column, in exact arithmetic, increase
  strictly from above zero, Derive returns and labels every income by the quartile
  interval that holds it, each interval closed on the right; an income of zero or below
  gets no label.
\<close>

lemma income_category_where_quartiles_increase:
  assumes "wf_dataframe (df p)"
    and "''MonthlyIncome'' \<in> set (columns (df p))"
    and "\<not> list_ex is_str (column (df p) ''Age'')"
    and "quantile (1 / 4) (column (df p) ''MonthlyIncome'') = Inr (Edge q25)"
    and "quantile (1 / 2) (column (df p) ''MonthlyIncome'') = Inr (Edge q50)"
    and "quantile (3 / 4) (column (df p) ''MonthlyIncome'') = Inr (Edge q75)"
    and "0 < q25" and "q25 < q50" and "q50 < q75"
  shows "snd (create_derived_features p) = None
   \<and> column (df (fst (create_derived_features p))) ''IncomeCategory''
       = map (\<lambda>c. case c of
                    Num x \<Rightarrow>
                      (if x \<le> 0 then NaN
                       else if x \<le> q25 then Str ''Low''
                       else if x \<le> q50 then Str ''Medium''
                       else if x \<le> q75 then Str ''High''
                       else Str ''Very High'')
                  | Str s \<Rightarrow> NaN
                  | NaN \<Rightarrow> NaN)
           (column (df p) ''MonthlyIncome'')
   \<and> column (df (fst (create_derived_features p))) ''MonthlyIncome''
       = column (df p) ''MonthlyIncome''"
proof -
  let ?p1 = "fst (create_age_group p)"
  let ?income = "column (df p) ''MonthlyIncome''"
  let ?bins = "[Edge 0, Edge q25, Edge q50, Edge q75, PosInf]"
  let ?labels = "[''Low'', ''Medium'', ''High'', ''Very High'']"
  have age: "snd (create_age_group p) = None"
    using assms(1,3) by (rule create_age_group_df)
  have wf1: "wf_dataframe (df ?p1)"
    using assms(1,3) by (rule create_age_group_df)
  have has1: "''MonthlyIncome'' \<in> set (columns (df ?p1))"
    using create_age_group_df(3) [OF assms(1,3)] assms(2) by blast
  have col1: "column (df ?p1) ''MonthlyIncome'' = ?income"
    using create_age_group_df(4) [OF assms(1,3)] by simp
  have numeric: "\<not> list_ex is_str ?income"
    using assms(4) by (rule quantile_Inr_numeric)
  have cut: "cut ?income ?bins ?labels = Inr (map (cut_cell ?bins ?labels) ?income)"
    using assms(7,8,9) numeric by (rule cut_quartiles)
  have run: "create_income_category ?p1
      = (?p1\<lparr>df := set_column (df ?p1) ''IncomeCategory'' (map (cut_cell ?bins ?labels) ?income),
              processing_log := processing_log ?p1 @ [CreatedIncomeCategory]\<rparr>, None)"
    using has1 assms(4,5,6)
    by (simp add: create_income_category_def Let_def col1 cut returns_def)
  have whole: "create_derived_features p = create_income_category ?p1"
    using age by (simp add: create_derived_features_def and_then_def)
  have "snd (create_derived_features p) = None"
    by (simp add: whole run)
  moreover have "column (df (fst (create_derived_features p))) ''IncomeCategory''
      = map (cut_cell ?bins ?labels) ?income"
    using wf1 by (simp add: whole run column_set_column_same length_column col1 [symmetric])
  moreover have "column (df (fst (create_derived_features p))) ''MonthlyIncome'' = ?income"
    using wf1 by (simp add: whole run column_set_column_other length_column col1 [symmetric])
  moreover have "cut_cell ?bins ?labels = (\<lambda>c. case c of
                    Num x \<Rightarrow>
                      (if x \<le> 0 then NaN
                       else if x \<le> q25 then Str ''Low''
                       else if x \<le> q50 then Str ''Medium''
                       else if x \<le> q75 then Str ''High''
                       else Str ''Very High'')
                  | Str s \<Rightarrow> NaN
                  | NaN \<Rightarrow> NaN)"
    using assms(7,8,9) by (intro ext) (rule cut_cell_quartiles)
  ultimately show ?thesis by simp
qed

section \<open>Absent columns\<close>

text \<open>
  A stage whose columns are all absent returns the processor as it was. Each block of a
  stage tests \<open>name in self.df.columns\<close> for the column it rewrites; the income block of
  Impute does not test for \<open>JobRole\<close>, the column it groups by.
\<close>

lemma stages_skip_absent_columns:
  assumes "set (columns (df p))
      \<inter> {''MonthlyIncome'', ''JobSatisfaction'', ''Department'', ''Gender'', ''Age''} = {}"
  shows "handle_missing_values p = (p, None)"
    and "standardize_data p = (p, None)"
    and "create_derived_features p = (p, None)"
  using assms
  by (simp_all add: handle_missing_values_def fill_missing_income_def
      fill_missing_satisfaction_def standardize_data_def standardize_department_def
      standardize_gender_def fix_negative_income_def create_derived_features_def
      create_age_group_def create_income_category_def and_then_def returns_def Let_def)

section \<open>The stages on concrete frames\<close>

text \<open>
  C1. \<open>pd.cut\<close> closes each bin on the right: on the ages 0, 29, 30, 40, 50, 100, 101 and
  -1 Derive labels 30 as \<open>Under 30\<close>, 40 as \<open>30-40\<close> and 50 as \<open>40-50\<close>, and leaves 0
  unclassified together with 101 and -1.
\<close>

theorem age_group_bins_closed_right:
  "create_derived_features
     \<lparr>df = \<lparr>columns = [''Age''],
            rows = [[Num 0], [Num 29], [Num 30], [Num 40], [Num 50], [Num 100], [Num 101],
                    [Num (- 1)]]\<rparr>,
      processing_log = []\<rparr>
   = (\<lparr>df = \<lparr>columns = [''Age'', ''AgeGroup''],
             rows = [[Num 0, NaN], [Num 29, Str ''Under 30''], [Num 30, Str ''Under 30''],
                     [Num 40, Str ''30-40''], [Num 50, Str ''40-50''], [Num 100, Str ''50+''],
                     [Num 101, NaN], [Num (- 1), NaN]]\<rparr>,
       processing_log = [CreatedAgeGroup]\<rparr>,
      None)"
  by code_simp

text \<open>
  C2. On a frame with a \<open>MonthlyIncome\<close> column that has a missing cell and no \<open>JobRole\<close>
  column Impute raises \<open>KeyError\<close> (from \<open>groupby('JobRole')\<close>) and leaves the frame as
  it was.
\<close>

theorem impute_without_jobrole_raises:
  "handle_missing_values
     \<lparr>df = \<lparr>columns = [''MonthlyIncome''], rows = [[Num 5000], [NaN]]\<rparr>,
      processing_log = []\<rparr>
   = (\<lparr>df = \<lparr>columns = [''MonthlyIncome''], rows = [[Num 5000], [NaN]]\<rparr>,
       processing_log = []\<rparr>,
      Some KeyError)"
  by code_simp

text \<open>
  C3. On a frame whose \<open>JobSatisfaction\<close> column is entirely missing Impute raises
  \<open>KeyError\<close> (from \<open>mode()[0]\<close> on the empty result of \<open>mode()\<close>).
\<close>

theorem impute_all_missing_satisfaction_raises:
  "handle_missing_values
     \<lparr>df = \<lparr>columns = [''JobRole'', ''MonthlyIncome'', ''JobSatisfaction''],
            rows = [[Str ''Manager'', Num 5000, NaN], [Str ''Manager'', Num 7000, NaN]]\<rparr>,
      processing_log = []\<rparr>
   = (\<lparr>df = \<lparr>columns = [''JobRole'', ''MonthlyIncome'', ''JobSatisfaction''],
             rows = [[Str ''Manager'', Num 5000, NaN], [Str ''Manager'', Num 7000, NaN]]\<rparr>,
       processing_log = []\<rparr>,
      Some KeyError)"
  by code_simp

text \<open>
  C5. Derive cuts the incomes at the quartiles of the frame it is given: on the incomes
  1000, 2000, 3000, 4000 the quartiles are 1750, 2500 and 3250, and the labels are
  \<open>Low\<close>, \<open>Medium\<close>, \<open>High\<close>, \<open>Very High\<close>. Where two quartiles coincide it assigns no
  category at all: on the incomes 2000, 3000, 3000, 3000, 4000 all three quartiles are
  3000, \<open>pd.cut\<close> raises \<open>ValueError\<close> for the repeated bin edge, and the frame is left
  without an \<open>IncomeCategory\<close> column. The same happens on a frame of one record.
\<close>

theorem income_category_tied_quartiles_raise:
  "map (\<lambda>q. quantile q [Num 2000, Num 3000, Num 3000, Num 3000, Num 4000]) [1 / 4, 1 / 2, 3 / 4]
     = [Inr (Edge 3000), Inr (Edge 3000), Inr (Edge 3000)]
   \<and> create_derived_features
       \<lparr>df = \<lparr>columns = [''MonthlyIncome''],
              rows = [[Num 2000], [Num 3000], [Num 3000], [Num 3000], [Num 4000]]\<rparr>,
        processing_log = []\<rparr>
     = (\<lparr>df = \<lparr>columns = [''MonthlyIncome''],
               rows = [[Num 2000], [Num 3000], [Num 3000], [Num 3000], [Num 4000]]\<rparr>,
         processing_log = []\<rparr>,
        Some ValueError)
   \<and> create_derived_features
       \<lparr>df = \<lparr>columns = [''MonthlyIncome''], rows = [[Num 5000]]\<rparr>, processing_log = []\<rparr>
     = (\<lparr>df = \<lparr>columns = [''MonthlyIncome''], rows = [[Num 5000]]\<rparr>, processing_log = []\<rparr>,
        Some ValueError)
   \<and> map (\<lambda>q. quantile q [Num 1000, Num 2000, Num 3000, Num 4000]) [1 / 4, 1 / 2, 3 / 4]
     = [Inr (Edge 1750), Inr (Edge 2500), Inr (Edge 3250)]
   \<and> create_derived_features
       \<lparr>df = \<lparr>columns = [''MonthlyIncome''],
              rows = [[Num 1000], [Num 2000], [Num 3000], [Num 4000]]\<rparr>,
        processing_log = []\<rparr>
     = (\<lparr>df = \<lparr>columns = [''MonthlyIncome'', ''IncomeCategory''],
               rows = [[Num 1000, Str ''Low''], [Num 2000, Str ''Medium''],
                       [Num 3000, Str ''High''], [Num 4000, Str ''Very High'']]\<rparr>,
         processing_log = [CreatedIncomeCategory]\<rparr>,
        None)"
  by code_simp

text \<open>
  C4. Deduplicate runs before Standardize: the records \<open>(35, SALES, M)\<close> and
  \<open>(35, Sales, M)\<close> differ when Deduplicate sees them, so both survive; Standardize then
  makes them equal, and the frame the pipeline ends with holds the same record twice.
\<close>

theorem pipeline_output_has_duplicates:
  "run_stages
     \<lparr>df = \<lparr>columns = [''Age'', ''Department'', ''Gender''],
            rows = [[Num 35, Str ''SALES'', Str ''M''], [Num 35, Str ''Sales'', Str ''M'']]\<rparr>,
      processing_log = []\<rparr>
   = (\<lparr>df = \<lparr>columns = [''Age'', ''Department'', ''Gender'', ''AgeGroup''],
             rows = [[Num 35, Str ''Sales'', Str ''Male'', Str ''30-40''],
                     [Num 35, Str ''Sales'', Str ''Male'', Str ''30-40'']]\<rparr>,
       processing_log = [FoundDuplicates 0, RemovedDuplicates 0, StandardizedDepartment,
                         StandardizedGender, CreatedAgeGroup]\<rparr>,
      None)
   \<and> \<not> distinct (rows (df (fst (run_stages
         \<lparr>df = \<lparr>columns = [''Age'', ''Department'', ''Gender''],
                rows = [[Num 35, Str ''SALES'', Str ''M''], [Num 35, Str ''Sales'', Str ''M'']]\<rparr>,
          processing_log = []\<rparr>))))
   \<and> duplicated (df (fst (run_stages
         \<lparr>df = \<lparr>columns = [''Age'', ''Department'', ''Gender''],
                rows = [[Num 35, Str ''SALES'', Str ''M''], [Num 35, Str ''Sales'', Str ''M'']]\<rparr>,
          processing_log = []\<rparr>))) = [False, True]"
  by code_simp

end
